theory Spec2Isabelle
  imports Complex_Main "HOL-Library.Sublist"
begin

section \<open>Phone normalizer and contact loader\<close>

text \<open>
  The bulk sender reads phone numbers from the first sheet of a spreadsheet, normalizes
  each of them and sends the message to every distinct normalized number.

  A cell value is modelled as a \<open>string option\<close>: \<open>None\<close> is JavaScript's
  \<open>undefined\<close>/\<open>null\<close>, \<open>Some s\<close> is the string \<open>s\<close> (for which
  \<open>String(raw)\<close> is the identity and \<open>!raw\<close> holds exactly when \<open>s\<close> is empty).
\<close>

definition backslash :: char where
  "backslash = CHR 0x5C"

text \<open>
  The regular expression literal in \<open>normalizePhone\<close> is written
  \<^verbatim>\<open>/[^\\d+]/g\<close>. Inside a regular expression literal \<^verbatim>\<open>\\\<close> is an escaped
  backslash, so the negated class lists three characters: the backslash, the letter
  \<open>d\<close> and the plus sign. \<open>replace\<close> with this expression deletes every character that
  is none of the three.
\<close>

definition keptChar :: "char \<Rightarrow> bool" where
  "keptChar c = (c = backslash \<or> c = CHR ''d'' \<or> c = CHR ''+'')"

definition strip :: "string \<Rightarrow> string" where
  "strip s = filter keptChar s"

text \<open>
  The second literal, \<^verbatim>\<open>/\\+/g\<close>, is an escaped backslash followed by the quantifier
  \<open>+\<close>: it matches every maximal run of backslashes, and \<open>replace\<close> deletes them.
\<close>

definition dropBackslashes :: "string \<Rightarrow> string" where
  "dropBackslashes s = filter (\<lambda>c. c \<noteq> backslash) s"

definition startsWith :: "string \<Rightarrow> string \<Rightarrow> bool" where
  "startsWith s p = prefix p s"

definition normalizePhone :: "string option \<Rightarrow> string \<Rightarrow> string option" where
  "normalizePhone raw countryCode =
     (case raw of
        None \<Rightarrow> None
      | Some s \<Rightarrow>
          if s = [] then None
          else let digits = strip s in
            if digits = [] then None
            else if startsWith digits ''+'' then Some (dropBackslashes digits)
            else if countryCode \<noteq> [] \<and> \<not> startsWith digits countryCode
              then (if length digits \<le> 11 then Some (countryCode @ digits) else Some digits)
            else Some digits)"

text \<open>
  A row of \<open>sheet_to_json\<close> is an object; it is modelled as the list of its
  (key, value) pairs in the order in which \<open>Object.values\<close> enumerates them.
  \<open>a ?? b\<close> is \<open>b\<close> exactly when \<open>a\<close> is \<open>undefined\<close> or \<open>null\<close>.
\<close>

type_synonym row = "(string \<times> string) list"

definition nullish :: "'a option \<Rightarrow> 'a option \<Rightarrow> 'a option" where
  "nullish a b = (case a of None \<Rightarrow> b | Some v \<Rightarrow> Some v)"

definition firstValue :: "row \<Rightarrow> string option" where
  "firstValue r = (case r of [] \<Rightarrow> None | kv # _ \<Rightarrow> Some (snd kv))"

definition selectValue :: "row \<Rightarrow> string option" where
  "selectValue r =
     nullish (map_of r ''phone'')
       (nullish (map_of r ''Phone'')
         (nullish (map_of r ''number'')
           (nullish (map_of r ''Number'') (firstValue r))))"

text \<open>
  \<open>numbers\<close> is a JavaScript \<open>Set\<close>: \<open>add\<close> of a present element changes nothing, and
  \<open>Array.from\<close> lists the elements in insertion order. \<open>if (n)\<close> is false for
  \<open>null\<close> and for the empty string.
\<close>

definition setAdd :: "string list \<Rightarrow> string \<Rightarrow> string list" where
  "setAdd numbers n = (if n \<in> set numbers then numbers else numbers @ [n])"

fun loadLoop :: "string \<Rightarrow> row list \<Rightarrow> string list \<Rightarrow> string list" where
  "loadLoop countryCode [] numbers = numbers"
| "loadLoop countryCode (r # rows) numbers =
     loadLoop countryCode rows
       (case normalizePhone (selectValue r) countryCode of
          None \<Rightarrow> numbers
        | Some n \<Rightarrow> if n = [] then numbers else setAdd numbers n)"

definition readExcelPhones :: "row list \<Rightarrow> string \<Rightarrow> string list" where
  "readExcelPhones rows countryCode = loadLoop countryCode rows []"

section \<open>Automation session\<close>

text \<open>
  The browser is outside the program. What it does during one call of an automation
  function is given by a \<open>page\<close> value: for every awaited driver call, whether it throws;
  for every \<open>waitForSelector\<close> promise that \<open>waitForAny\<close> creates, whether and when it
  settles. Times are milliseconds since the call of \<open>waitForAny\<close>. Every driver
  call that the program awaits directly is taken to settle (it returns or it throws), so
  that every automation function returns or throws; only a promise raced inside
  \<open>waitForAny\<close> may stay pending.

  A thrown value is an \<open>Error\<close> object with a name and a message.
\<close>

datatype jserror = JSError (name: string) (message: string)

definition newError :: "string \<Rightarrow> jserror" where
  "newError msg = JSError ''Error'' msg"

type_synonym handle = nat

datatype 'a promise = Pending | Resolved nat 'a | Rejected nat jserror

type_synonym found = "string \<times> handle"

record page =
  goto :: "jserror option"
  waitBody :: "jserror option"
  waitReady :: "jserror option"
  waitForSelector :: "string \<Rightarrow> nat \<Rightarrow> handle promise"
  allFirst :: bool
  fileInput :: "jserror + handle option"
  focus :: "jserror option"
  keyboard :: "jserror option"
  click :: "jserror option"
  uploadFile :: "jserror option"

text \<open>
  \<open>goto\<close>, \<open>waitBody\<close>, \<open>waitReady\<close>, \<open>focus\<close>, \<open>keyboard\<close>, \<open>click\<close> and
  \<open>uploadFile\<close> hold the error an awaited driver call throws (\<open>None\<close>: it returns);
  \<open>keyboard\<close> stands for the whole typing loop of \<open>typeMultiline\<close>, which makes
  at least one keyboard call unless the text is empty. \<open>fileInput\<close> is
  the outcome of the awaited \<open>waitForSelector\<close> for the file input. \<open>allFirst\<close> says
  which reaction runs first when \<open>Promise.all\<close> and \<open>sleep\<close> settle in the same
  millisecond.

  \<open>.then(h => ({ sel, handle: h })).catch(() => null)\<close>: a resolved promise yields the
  pair, a rejected one yields \<open>null\<close>, a pending one stays pending. A settled promise is
  \<open>Some (time, value)\<close>.
\<close>

definition caught :: "string \<Rightarrow> handle promise \<Rightarrow> (nat \<times> found option) option" where
  "caught sel p =
     (case p of
        Pending \<Rightarrow> None
      | Resolved t h \<Rightarrow> Some (t, Some (sel, h))
      | Rejected t e \<Rightarrow> Some (t, None))"

text \<open>\<open>Promise.all\<close> settles when the last of its promises settles, never if one is pending.\<close>

fun promiseAll :: "(nat \<times> 'a) option list \<Rightarrow> (nat \<times> 'a list) option" where
  "promiseAll [] = Some (0, [])"
| "promiseAll (p # ps) =
     (case p of
        None \<Rightarrow> None
      | Some tv \<Rightarrow>
          (case promiseAll ps of
             None \<Rightarrow> None
           | Some tvs \<Rightarrow> Some (max (fst tv) (fst tvs), snd tv # snd tvs)))"

text \<open>
  \<open>Promise.race([all, sleep(ms)])\<close>: \<open>sleep\<close> settles at \<open>ms\<close> with \<open>undefined\<close>
  (\<open>None\<close>). The result is the settling time and the value.
\<close>

definition race :: "bool \<Rightarrow> (nat \<times> 'a) option \<Rightarrow> nat \<Rightarrow> nat \<times> 'a option" where
  "race first all ms =
     (case all of
        None \<Rightarrow> (ms, None)
      | Some tv \<Rightarrow>
          if fst tv < ms \<or> (fst tv = ms \<and> first) then (fst tv, Some (snd tv))
          else (ms, None))"

text \<open>\<open>result.find(Boolean)\<close>: the first element that is not \<open>null\<close>.\<close>

fun findBoolean :: "'a option list \<Rightarrow> 'a option" where
  "findBoolean [] = None"
| "findBoolean (x # xs) = (case x of None \<Rightarrow> findBoolean xs | Some v \<Rightarrow> Some v)"

definition waitForAny :: "page \<Rightarrow> string list \<Rightarrow> nat \<Rightarrow> nat \<times> found option" where
  "waitForAny pg selectors timeout =
     (let promises = map (\<lambda>sel. caught sel (waitForSelector pg sel timeout)) selectors;
          r = race (allFirst pg) (promiseAll promises) timeout;
          result = (case snd r of None \<Rightarrow> [] | Some vs \<Rightarrow> vs)
      in (fst r, findBoolean result))"

definition composerSelectors :: "string list" where
  \<open>composerSelectors =
     [''div[contenteditable="true"][data-tab="10"]'',
      ''div[contenteditable="true"][data-tab="6"]'',
      ''div[aria-placeholder="Type a message"]'',
      ''div[role="textbox"][contenteditable="true"]'']\<close>

definition sendSelectors :: "string list" where
  \<open>sendSelectors =
     [''button[data-testid="compose-btn-send"]'',
      ''span[data-icon="send"]'',
      ''div[aria-label="Send"] button'']\<close>

definition clipSelectors :: "string list" where
  \<open>clipSelectors =
     [''button[data-testid="attach-button"]'',
      ''span[data-icon="clip"]'',
      ''div[title="Attach"]'']\<close>

definition previewSelectors :: "string list" where
  \<open>previewSelectors =
     [''div[aria-label="Add a caption"]'',
      ''div[aria-label="Send"]'',
      ''div[data-animate-media-preview]'']\<close>

definition readySelectors :: "string list" where
  \<open>readySelectors =
     [''div[data-testid="chatlist"]'',
      ''div[title="Search input textbox"]'',
      ''div[aria-label="Search or start new chat"]'']\<close>

text \<open>
  \<open>openChat\<close> and \<open>ensureLoggedIn\<close> return nothing; the model returns the time their
  final \<open>waitForAny\<close> took (\<open>Inr\<close>), or the error thrown (\<open>Inl\<close>). Both discard what
  \<open>waitForAny\<close> found.
\<close>

definition openChat :: "page \<Rightarrow> string \<Rightarrow> jserror + nat" where
  "openChat pg phone =
     (case goto pg of
        Some e \<Rightarrow> Inl e
      | None \<Rightarrow>
          (case waitBody pg of
             Some e \<Rightarrow> Inl e
           | None \<Rightarrow>
               (case waitReady pg of
                  Some e \<Rightarrow> Inl e
                | None \<Rightarrow> Inr (fst (waitForAny pg composerSelectors 30000)))))"

definition ensureLoggedIn :: "page \<Rightarrow> jserror + nat" where
  "ensureLoggedIn pg =
     (case goto pg of
        Some e \<Rightarrow> Inl e
      | None \<Rightarrow> Inr (fst (waitForAny pg readySelectors 0)))"

text \<open>
  The other steps return \<open>None\<close> when they return, \<open>Some e\<close> when they throw \<open>e\<close>.
  \<open>attachFiles\<close> ends with a \<open>waitForAny\<close> on \<open>previewSelectors\<close> whose result it
  discards; \<open>waitForAny\<close> never throws, so this wait does not show in the outcome.
\<close>

definition typeMultiline :: "page \<Rightarrow> string \<Rightarrow> jserror option" where
  "typeMultiline pg text =
     (case snd (waitForAny pg composerSelectors 15000) of
        None \<Rightarrow> Some (newError ''Composer not found'')
      | Some target \<Rightarrow>
          (case focus pg of
             Some e \<Rightarrow> Some e
           | None \<Rightarrow> if text = [] then None else keyboard pg))"

definition clickSend :: "page \<Rightarrow> jserror option" where
  "clickSend pg =
     (case snd (waitForAny pg sendSelectors 10000) of
        None \<Rightarrow> Some (newError ''Send button not found'')
      | Some sendBtn \<Rightarrow> click pg)"

definition attachFiles :: "page \<Rightarrow> string list \<Rightarrow> jserror option" where
  "attachFiles pg files =
     (if files = [] then None
      else
        (case snd (waitForAny pg clipSelectors 10000) of
           None \<Rightarrow> Some (newError ''Attach button not found'')
         | Some clip \<Rightarrow>
             (case click pg of
                Some e \<Rightarrow> Some e
              | None \<Rightarrow>
                  (case fileInput pg of
                     Inl e \<Rightarrow> Some e
                   | Inr None \<Rightarrow> Some (newError ''File input not found'')
                   | Inr (Some h) \<Rightarrow> uploadFile pg))))"

section \<open>JavaScript numbers\<close>

text \<open>
  A JavaScript number is a double: a finite value, an infinity or \<open>NaN\<close>. A finite
  value is modelled by the real it denotes (the sign of zero is not modelled). Every
  arithmetic operation returns the double nearest to the exact result, ties to the even
  significand, and an infinity when that nearest value is out of range.

  \<open>ulp x\<close> is the distance between neighbouring doubles around \<open>x\<close>: 2 to the
  power \<open>e - 52\<close> when \<open>x\<close> lies between 2 to the power \<open>e\<close> and 2 to the power
  \<open>e + 1\<close>, and 2 to the power \<open>- 1074\<close> for the subnormal numbers.
\<close>

datatype jsnum = Fin real | PosInf | NegInf | NaN

definition ulp :: "real \<Rightarrow> real" where
  "ulp x = 2 powr of_int (max (\<lfloor>log 2 \<bar>x\<bar>\<rfloor> - 52) (- 1074))"

definition roundEven :: "real \<Rightarrow> int" where
  "roundEven y =
     (if y - of_int \<lfloor>y\<rfloor> < 1 / 2 then \<lfloor>y\<rfloor>
      else if 1 / 2 < y - of_int \<lfloor>y\<rfloor> then \<lfloor>y\<rfloor> + 1
      else if even \<lfloor>y\<rfloor> then \<lfloor>y\<rfloor> else \<lfloor>y\<rfloor> + 1)"

definition nearest :: "real \<Rightarrow> real" where
  "nearest x = (if x = 0 then 0 else of_int (roundEven (x / ulp x)) * ulp x)"

definition huge :: real where
  "huge = 2 ^ 1024"

definition double :: "real \<Rightarrow> jsnum" where
  "double x =
     (if huge \<le> nearest x then PosInf
      else if nearest x \<le> - huge then NegInf
      else Fin (nearest x))"


fun jsNeg :: "jsnum \<Rightarrow> jsnum" where
  "jsNeg (Fin x) = Fin (- x)"
| "jsNeg PosInf = NegInf"
| "jsNeg NegInf = PosInf"
| "jsNeg NaN = NaN"

fun jsAdd :: "jsnum \<Rightarrow> jsnum \<Rightarrow> jsnum" where
  "jsAdd NaN b = NaN"
| "jsAdd a NaN = NaN"
| "jsAdd (Fin x) (Fin y) = double (x + y)"
| "jsAdd (Fin x) b = b"
| "jsAdd a (Fin y) = a"
| "jsAdd PosInf PosInf = PosInf"
| "jsAdd NegInf NegInf = NegInf"
| "jsAdd PosInf NegInf = NaN"
| "jsAdd NegInf PosInf = NaN"

definition jsSub :: "jsnum \<Rightarrow> jsnum \<Rightarrow> jsnum" where
  "jsSub a b = jsAdd a (jsNeg b)"

fun jsMul :: "jsnum \<Rightarrow> jsnum \<Rightarrow> jsnum" where
  "jsMul NaN b = NaN"
| "jsMul a NaN = NaN"
| "jsMul (Fin x) (Fin y) = double (x * y)"
| "jsMul (Fin x) b = (if x = 0 then NaN else if 0 < x then b else jsNeg b)"
| "jsMul a (Fin y) = (if y = 0 then NaN else if 0 < y then a else jsNeg a)"
| "jsMul PosInf b = b"
| "jsMul NegInf b = jsNeg b"

text \<open>
  \<open>Math.round\<close> returns the nearest integer, halves upwards; it is exact on doubles,
  and returns an infinity or \<open>NaN\<close> unchanged.
\<close>

fun mathRound :: "jsnum \<Rightarrow> jsnum" where
  "mathRound (Fin x) = Fin (of_int \<lfloor>x + 1 / 2\<rfloor>)"
| "mathRound a = a"

text \<open>\<open>x || d\<close> on numbers: \<open>d\<close> when \<open>x\<close> is zero or \<open>NaN\<close>.\<close>

definition orElse :: "jsnum \<Rightarrow> jsnum \<Rightarrow> jsnum" where
  "orElse x d = (if x = NaN \<or> x = Fin 0 then d else x)"

section \<open>Pacing\<close>

text \<open>
  The value that one call of \<open>Math.random()\<close> returns is a parameter \<open>r\<close>, a double
  with \<open>0 \<le> r < 1\<close>. \<open>randomBetween\<close> computes \<open>min + Math.random() * (max - min)\<close>
  in doubles: the difference, then the product, then the sum.
\<close>

definition randomBetween :: "jsnum \<Rightarrow> jsnum \<Rightarrow> real \<Rightarrow> jsnum" where
  "randomBetween lo hi r = jsAdd lo (jsMul (Fin r) (jsSub hi lo))"

definition minMsOf :: "jsnum \<Rightarrow> jsnum" where
  "minMsOf delayMin = mathRound (jsMul (orElse delayMin (Fin 2)) (Fin 1000))"

definition maxMsOf :: "jsnum \<Rightarrow> jsnum" where
  "maxMsOf delayMax = mathRound (jsMul (orElse delayMax (Fin 5)) (Fin 1000))"

definition successDelay :: "jsnum \<Rightarrow> jsnum \<Rightarrow> real \<Rightarrow> jsnum" where
  "successDelay minMs maxMs r = mathRound (randomBetween minMs maxMs r)"

definition backoff :: "real \<Rightarrow> jsnum" where
  "backoff r = jsAdd (Fin 1500) (jsMul (Fin r) (Fin 2000))"

section \<open>Batch loop\<close>

text \<open>
  The loop of \<open>main\<close> over the loaded numbers. Its effects are the \<open>results\<close> object and
  the calls it makes, which the model records as a list of events, oldest first.
\<close>

datatype step = OpenChat | AttachFiles | TypeMultiline | ClickSend

datatype event =
    EOpenChat string
  | EAttachFiles "string list"
  | ETypeMultiline string
  | EClickSend
  | ENothingToSend
  | ESleep jsnum

record results =
  sent :: nat
  failed :: nat
  errors :: "(string \<times> string) list"

text \<open>
  A run is given by what the browser does in each step of each iteration, by the value
  \<open>Math.random()\<close> returns for the pause of each iteration, and by the message, the
  attachments and the two bounds computed before the loop.
\<close>

record run =
  browser :: "nat \<Rightarrow> step \<Rightarrow> page"
  random :: "nat \<Rightarrow> real"
  attachments :: "string list"
  msgText :: string
  minMs :: jsnum
  maxMs :: jsnum

text \<open>
  A piece of the \<open>try\<close> block is the events it produces and the error it throws, if
  any. \<open>andThen a b\<close> runs \<open>b\<close> after \<open>a\<close> unless \<open>a\<close> has thrown.
\<close>

type_synonym outcome = "event list \<times> jserror option"

definition andThen :: "outcome \<Rightarrow> outcome \<Rightarrow> outcome" where
  "andThen a b = (case snd a of Some e \<Rightarrow> a | None \<Rightarrow> (fst a @ fst b, snd b))"

definition thrown :: "jserror + nat \<Rightarrow> jserror option" where
  "thrown x = (case x of Inl e \<Rightarrow> Some e | Inr t \<Rightarrow> None)"

definition sendJob :: "(step \<Rightarrow> page) \<Rightarrow> string list \<Rightarrow> string \<Rightarrow> string \<Rightarrow> outcome" where
  "sendJob br atts msg phone =
     andThen ([EOpenChat phone], thrown (openChat (br OpenChat) phone))
       (if atts \<noteq> [] then
          andThen ([EAttachFiles atts], attachFiles (br AttachFiles) atts)
            (andThen
               (if msg \<noteq> [] then ([ETypeMultiline msg], typeMultiline (br TypeMultiline) msg)
                else ([], None))
               ([EClickSend], clickSend (br ClickSend)))
        else if msg \<noteq> [] then
          andThen ([ETypeMultiline msg], typeMultiline (br TypeMultiline) msg)
            ([EClickSend], clickSend (br ClickSend))
        else ([ENothingToSend], None))"

text \<open>
  \<open>String(err?.message || err)\<close>: the message when it is not empty, else the error
  converted to a string, which for an error with an empty message is its name.
\<close>

definition errorToString :: "jserror \<Rightarrow> string" where
  "errorToString e =
     (if name e = [] then message e
      else if message e = [] then name e
      else name e @ '': '' @ message e)"

definition errorDetail :: "jserror \<Rightarrow> string" where
  "errorDetail e = (if message e \<noteq> [] then message e else errorToString e)"

definition jobOutcome :: "run \<Rightarrow> nat \<Rightarrow> string \<Rightarrow> outcome" where
  "jobOutcome rn i phone = sendJob (browser rn i) (attachments rn) (msgText rn) phone"

definition iteration ::
  "run \<Rightarrow> nat \<Rightarrow> string \<Rightarrow> results \<times> event list \<Rightarrow> results \<times> event list" where
  "iteration rn i phone st =
     (case snd (jobOutcome rn i phone) of
        None \<Rightarrow>
          ((fst st)\<lparr>sent := sent (fst st) + 1\<rparr>,
           snd st @ fst (jobOutcome rn i phone)
             @ [ESleep (successDelay (minMs rn) (maxMs rn) (random rn i))])
      | Some err \<Rightarrow>
          ((fst st)\<lparr>failed := failed (fst st) + 1,
                     errors := errors (fst st) @ [(phone, errorDetail err)]\<rparr>,
           snd st @ fst (jobOutcome rn i phone) @ [ESleep (backoff (random rn i))]))"

fun loop :: "run \<Rightarrow> nat \<Rightarrow> string list \<Rightarrow> results \<times> event list \<Rightarrow> results \<times> event list" where
  "loop rn i [] st = st"
| "loop rn i (phone # rest) st = loop rn (Suc i) rest (iteration rn i phone st)"

definition mainLoop :: "run \<Rightarrow> string list \<Rightarrow> results \<times> event list" where
  "mainLoop rn numbers = loop rn 0 numbers (\<lparr>sent = 0, failed = 0, errors = []\<rparr>, [])"

text \<open>
  Two notions used to state properties of a run: the events that open a conversation, and
  the failure record that iteration \<open>i\<close> on number \<open>p\<close> appends to \<open>results.errors\<close>
  (\<open>None\<close> when its \<open>try\<close> block throws nothing).
\<close>



fun isOpenChat :: "event \<Rightarrow> bool" where
  "isOpenChat (EOpenChat p) = True"
| "isOpenChat ev = False"

definition failureOf :: "run \<Rightarrow> nat \<times> string \<Rightarrow> (string \<times> string) option" where
  "failureOf rn ip =
     (case snd (jobOutcome rn (fst ip) (snd ip)) of
        None \<Rightarrow> None
      | Some e \<Rightarrow> Some (snd ip, errorDetail e))"

section \<open>Example browsers and runs\<close>

text \<open>
  \<open>okPage\<close>: every driver call returns and every selector is found after 200 ms.
  \<open>stuckPage\<close>: the driver calls return but no selector ever matches, so a
  \<open>waitForSelector\<close> promise is rejected when its timeout expires and stays pending
  when the timeout is 0 (no timeout).
\<close>

definition timeoutError :: jserror where
  "timeoutError = JSError ''TimeoutError'' ''Waiting for selector failed''"

definition okPage :: page where
  "okPage =
     \<lparr>goto = None, waitBody = None, waitReady = None,
      waitForSelector = (\<lambda>sel timeout. Resolved 200 1), allFirst = True,
      fileInput = Inr (Some 2), focus = None, keyboard = None, click = None,
      uploadFile = None\<rparr>"

definition stuckPage :: page where
  "stuckPage =
     \<lparr>goto = None, waitBody = None, waitReady = None,
      waitForSelector =
        (\<lambda>sel timeout. if timeout = 0 then Pending else Rejected timeout timeoutError),
      allFirst = True,
      fileInput = Inl timeoutError, focus = None, keyboard = None, click = None,
      uploadFile = None\<rparr>"


definition threeNumbers :: "string list" where
  "threeNumbers = [''15550100'', ''15550101'', ''15550102'']"

text \<open>A run with the message \<open>Hi\<close> in which the browser is stuck for the second number.\<close>

definition secondFails :: run where
  "secondFails =
     \<lparr>browser = (\<lambda>i s. if i = 1 then stuckPage else okPage), random = (\<lambda>i. 1 / 2),
      attachments = [], msgText = ''Hi'', minMs = Fin 2000, maxMs = Fin 5000\<rparr>"

text \<open>The run of \<open>--delayMin 0 --delayMax 0 --message Hi\<close> on a browser that always answers.\<close>

definition zeroDelays :: run where
  "zeroDelays =
     \<lparr>browser = (\<lambda>i s. okPage), random = (\<lambda>i. 0),
      attachments = [], msgText = ''Hi'', minMs = minMsOf (Fin 0), maxMs = maxMsOf (Fin 0)\<rparr>"

text \<open>A run with an empty message (an empty message file) and no attachment.\<close>

definition nothingToSend :: run where
  "nothingToSend =
     \<lparr>browser = (\<lambda>i s. okPage), random = (\<lambda>i. 0),
      attachments = [], msgText = [], minMs = Fin 2000, maxMs = Fin 5000\<rparr>"

section \<open>Properties of the normalizer and the loader\<close>

lemmas normalize_defs =
  normalizePhone_def strip_def keptChar_def backslash_def dropBackslashes_def startsWith_def

lemma strip_digits_only:
  "set s \<subseteq> set ''0123456789 -()'' \<Longrightarrow> strip s = []"
  by (induction s) (auto simp: strip_def keptChar_def backslash_def)

lemma normalizePhone_digits_only:
  "set s \<subseteq> set ''0123456789 -()'' \<Longrightarrow> normalizePhone (Some s) cc = None"
  by (simp add: normalizePhone_def strip_digits_only)

lemma setAdd_distinct: "distinct ns \<Longrightarrow> distinct (setAdd ns n)"
  by (simp add: setAdd_def)

lemma loadLoop_distinct: "distinct ns \<Longrightarrow> distinct (loadLoop cc rows ns)"
  by (induction rows arbitrary: ns) (auto simp: setAdd_distinct split: option.splits)

lemma readExcelPhones_distinct: "distinct (readExcelPhones rows cc)"
  by (simp add: readExcelPhones_def loadLoop_distinct)

text \<open>
  Claim C2. The normalizer is to keep the digits and a leading plus sign, to return
  \<open>null\<close> for an input without digits, and to return the digits after a leading plus
  sign whatever the country code. The character class of the source keeps the backslash,
  the letter \<open>d\<close> and the plus sign instead, and deletes the digits: for the input
  \<open>+1 555-0100\<close> the result is the string \<open>+\<close>, with and without a country code,
  not \<open>15550100\<close>; and for the input \<open>+\<close>, which has no digit, the result is \<open>+\<close>,
  not \<open>null\<close>.
\<close>

theorem normalizePhone_plus_input:
  "normalizePhone (Some ''+1 555-0100'') ''91'' = Some ''+''
   \<and> normalizePhone (Some ''+1 555-0100'') [] = Some ''+''
   \<and> normalizePhone (Some ''+'') [] = Some ''+''"
  by (simp add: normalize_defs)

text \<open>
  Claim C3. A string of at most 11 digits without a plus sign is to get the configured
  country code in front, and a string of 12 or more digits is to be returned unchanged.
  Since the source deletes every digit, both inputs are stripped to the empty string and
  the result is \<open>null\<close>: for the 8 digits \<open>98765432\<close> with country code \<open>91\<close>, and
  for the 12 digits \<open>919876543210\<close>.
\<close>

theorem normalizePhone_digit_strings:
  "normalizePhone (Some ''98765432'') ''91'' = None
   \<and> normalizePhone (Some ''919876543210'') ''91'' = None
   \<and> normalizePhone (Some ''919876543210'') [] = None"
  by (simp add: normalize_defs)

text \<open>
  Claim C4. The loader is to drop the rows without a number, to keep the first
  occurrence of each normalized number, and to return \<open>15550100\<close> alone for a sheet
  whose column \<open>Number\<close> holds \<open>+1 555-0100\<close>, \<open>+1 555-0100\<close> and the empty string.
  The loop of the source does drop and deduplicate (\<open>readExcelPhones_distinct\<close>), but
  on what \<open>normalizePhone\<close> returns: for this sheet the result is the single string \<open>+\<close>.
\<close>

theorem readExcelPhones_example:
  "readExcelPhones
     [[(''Number'', ''+1 555-0100'')], [(''Number'', ''+1 555-0100'')], [(''Number'', [])]] []
   = [''+'']"
  by (simp add: readExcelPhones_def selectValue_def nullish_def firstValue_def setAdd_def
      normalize_defs)

section \<open>Properties of the batch loop\<close>

lemmas wait_defs = waitForAny_def race_def caught_def

lemmas selector_defs =
  composerSelectors_def sendSelectors_def clipSelectors_def readySelectors_def

lemmas step_defs =
  openChat_def typeMultiline_def clickSend_def attachFiles_def thrown_def newError_def

lemmas job_defs = jobOutcome_def sendJob_def andThen_def

lemma sendJob_opens:
  "filter isOpenChat (fst (sendJob br atts msg phone)) = [EOpenChat phone]"
  by (simp add: sendJob_def andThen_def split: option.splits)

lemma iteration_counts:
  "sent (fst (iteration rn i p st)) + failed (fst (iteration rn i p st))
     = Suc (sent (fst st) + failed (fst st))"
  by (simp add: iteration_def split: option.splits)

lemma iteration_errors_length:
  "length (errors (fst st)) = failed (fst st) \<Longrightarrow>
   length (errors (fst (iteration rn i p st))) = failed (fst (iteration rn i p st))"
  by (simp add: iteration_def split: option.splits)

lemma iteration_errors:
  "errors (fst (iteration rn i p st)) =
     errors (fst st) @ (case failureOf rn (i, p) of None \<Rightarrow> [] | Some f \<Rightarrow> [f])"
  by (simp add: iteration_def failureOf_def split: option.splits)

lemma iteration_opens:
  "filter isOpenChat (snd (iteration rn i p st)) = filter isOpenChat (snd st) @ [EOpenChat p]"
  by (simp add: iteration_def jobOutcome_def sendJob_opens split: option.splits)

lemma loop_counts:
  "sent (fst (loop rn i ps st)) + failed (fst (loop rn i ps st))
     = sent (fst st) + failed (fst st) + length ps"
  by (induction ps arbitrary: i st) (simp_all add: iteration_counts)

lemma loop_errors_length:
  "length (errors (fst st)) = failed (fst st) \<Longrightarrow>
   length (errors (fst (loop rn i ps st))) = failed (fst (loop rn i ps st))"
  by (induction ps arbitrary: i st) (simp_all add: iteration_errors_length)

lemma loop_errors:
  "errors (fst (loop rn i ps st)) =
     errors (fst st) @ List.map_filter (failureOf rn) (enumerate i ps)"
  by (induction ps arbitrary: i st)
     (simp_all add: iteration_errors List.map_filter_simps split: option.splits)

lemma loop_opens:
  "filter isOpenChat (snd (loop rn i ps st)) = filter isOpenChat (snd st) @ map EOpenChat ps"
  by (induction ps arbitrary: i st) (simp_all add: iteration_opens)

lemma map_filter_member:
  "x \<in> set xs \<Longrightarrow> f x = Some y \<Longrightarrow> y \<in> set (List.map_filter f xs)"
  by (induction xs) (auto split: option.splits)

lemma jobOutcome_secondFails:
  "jobOutcome secondFails i p =
     (if i = 1 then ([EOpenChat p, ETypeMultiline ''Hi''], Some (newError ''Composer not found''))
      else ([EOpenChat p, ETypeMultiline ''Hi'', EClickSend], None))"
  by (simp add: job_defs step_defs wait_defs selector_defs secondFails_def okPage_def
      stuckPage_def)

lemma results_secondFails:
  "fst (mainLoop secondFails threeNumbers) =
     \<lparr>sent = 2, failed = 1, errors = [(''15550101'', ''Composer not found'')]\<rparr>"
  by (simp add: mainLoop_def threeNumbers_def iteration_def jobOutcome_secondFails
      errorDetail_def newError_def)

text \<open>
  Claim C1. When the \<open>try\<close> block of the contact at position \<open>k\<close> throws an error \<open>e\<close>
  that has a message, the loop appends the record of that contact's number and that
  message to \<open>results.errors\<close>, and goes on: the list of failure records is, in order,
  one record for every contact whose block throws and none for the others, and every
  number of the batch is opened, in the order of the batch.
  (For an error whose message is empty the recorded detail is the error converted to a
  string.)
\<close>

theorem failure_isolation:
  assumes "k < length numbers"
    and "snd (jobOutcome rn k (numbers ! k)) = Some e"
    and "message e \<noteq> []"
  shows "errors (fst (mainLoop rn numbers))
           = List.map_filter (failureOf rn) (enumerate 0 numbers)
    \<and> failureOf rn (k, numbers ! k) = Some (numbers ! k, message e)
    \<and> (numbers ! k, message e) \<in> set (errors (fst (mainLoop rn numbers)))
    \<and> filter isOpenChat (snd (mainLoop rn numbers)) = map EOpenChat numbers"
proof -
  have all: "errors (fst (mainLoop rn numbers))
      = List.map_filter (failureOf rn) (enumerate 0 numbers)"
    by (simp add: mainLoop_def loop_errors)
  have rec: "failureOf rn (k, numbers ! k) = Some (numbers ! k, message e)"
    using assms(2,3) by (simp add: failureOf_def errorDetail_def)
  have "(k, numbers ! k) \<in> set (enumerate 0 numbers)"
    using assms(1) by (simp add: in_set_enumerate_eq)
  then have "(numbers ! k, message e)
      \<in> set (List.map_filter (failureOf rn) (enumerate 0 numbers))"
    using rec by (rule map_filter_member)
  with all have mem: "(numbers ! k, message e) \<in> set (errors (fst (mainLoop rn numbers)))"
    by simp
  have "filter isOpenChat (snd (mainLoop rn numbers)) = map EOpenChat numbers"
    by (simp add: mainLoop_def loop_opens)
  with all rec mem show ?thesis by simp
qed

text \<open>
  The second of three contacts fails with \<open>Composer not found\<close>: the ledger has two
  sent, one failed, the failure record carries the second number, and the third number
  is opened.
\<close>

theorem failure_isolation_witness:
  "1 < length threeNumbers
   \<and> snd (jobOutcome secondFails 1 (threeNumbers ! 1)) = Some (newError ''Composer not found'')
   \<and> message (newError ''Composer not found'') \<noteq> []
   \<and> (threeNumbers ! 1, ''Composer not found'')
        \<in> set (errors (fst (mainLoop secondFails threeNumbers)))
   \<and> errors (fst (mainLoop secondFails threeNumbers)) = [(''15550101'', ''Composer not found'')]
   \<and> sent (fst (mainLoop secondFails threeNumbers)) = 2
   \<and> failed (fst (mainLoop secondFails threeNumbers)) = 1
   \<and> filter isOpenChat (snd (mainLoop secondFails threeNumbers)) = map EOpenChat threeNumbers"
proof -
  have h1: "1 < length threeNumbers"
    by (simp add: threeNumbers_def)
  have h2: "snd (jobOutcome secondFails 1 (threeNumbers ! 1))
      = Some (newError ''Composer not found'')"
    by (simp add: jobOutcome_secondFails)
  have h3: "message (newError ''Composer not found'') \<noteq> []"
    by (simp add: newError_def)
  note isolated = failure_isolation [OF h1 h2 h3]
  have opened: "filter isOpenChat (snd (mainLoop secondFails threeNumbers))
      = map EOpenChat threeNumbers"
    using isolated by blast
  have recorded: "(threeNumbers ! 1, message (newError ''Composer not found''))
      \<in> set (errors (fst (mainLoop secondFails threeNumbers)))"
    using isolated by blast
  have msg: "message (newError ''Composer not found'') = ''Composer not found''"
    by (simp add: newError_def)
  have ledger: "errors (fst (mainLoop secondFails threeNumbers))
        = [(''15550101'', ''Composer not found'')]
      \<and> sent (fst (mainLoop secondFails threeNumbers)) = 2
      \<and> failed (fst (mainLoop secondFails threeNumbers)) = 1"
    by (simp add: results_secondFails)
  from h1 h2 h3 opened recorded [unfolded msg] ledger show ?thesis
    by blast
qed

text \<open>
  Claim C10. Every iteration increments exactly one of \<open>sent\<close> and \<open>failed\<close>, and
  appends one failure record exactly when it increments \<open>failed\<close>; so after the loop
  \<open>sent + failed\<close> is the number of contacts and \<open>errors\<close> has \<open>failed\<close> records.
\<close>

theorem ledger_counts:
  "sent (fst (mainLoop rn numbers)) + failed (fst (mainLoop rn numbers)) = length numbers
   \<and> length (errors (fst (mainLoop rn numbers))) = failed (fst (mainLoop rn numbers))
   \<and> ((sent (fst (iteration rn i p st)) = sent (fst st) + 1
         \<and> failed (fst (iteration rn i p st)) = failed (fst st)
         \<and> errors (fst (iteration rn i p st)) = errors (fst st))
      \<or> (sent (fst (iteration rn i p st)) = sent (fst st)
         \<and> failed (fst (iteration rn i p st)) = failed (fst st) + 1
         \<and> (\<exists>f. errors (fst (iteration rn i p st)) = errors (fst st) @ [f])))"
proof -
  have "sent (fst (mainLoop rn numbers)) + failed (fst (mainLoop rn numbers)) = length numbers"
    by (simp add: mainLoop_def loop_counts)
  moreover have "length (errors (fst (mainLoop rn numbers))) = failed (fst (mainLoop rn numbers))"
    by (simp add: mainLoop_def loop_errors_length)
  moreover have "(sent (fst (iteration rn i p st)) = sent (fst st) + 1
         \<and> failed (fst (iteration rn i p st)) = failed (fst st)
         \<and> errors (fst (iteration rn i p st)) = errors (fst st))
      \<or> (sent (fst (iteration rn i p st)) = sent (fst st)
         \<and> failed (fst (iteration rn i p st)) = failed (fst st) + 1
         \<and> (\<exists>f. errors (fst (iteration rn i p st)) = errors (fst st) @ [f]))"
    by (cases "snd (jobOutcome rn i p)") (simp_all add: iteration_def)
  ultimately show ?thesis by blast
qed

section \<open>Properties of double rounding\<close>

text \<open>
  Rounding to the nearest double leaves every integer below 2 to the power 53 and every
  such integer divided by a power of two unchanged, and it never crosses such an integer:
  a value between two of them is rounded to a double between them.
\<close>

lemma huge_large: "2 ^ 53 < huge"
  unfolding huge_def by (rule power_strict_increasing) simp_all

lemma roundEven_of_int: "roundEven (of_int m) = m"
  by (simp add: roundEven_def)




lemma ulp_exponent:
  assumes "x \<noteq> 0" and "\<bar>x\<bar> < 2 ^ 53 / 2 ^ k" and "k \<le> 1074"
  shows "\<exists>j::nat. ulp x = 1 / 2 ^ (k + j)"
proof -
  let ?e = "\<lfloor>log 2 \<bar>x\<bar>\<rfloor>"
  let ?E = "max (?e - 52) (- 1074)"
  have pos: "0 < \<bar>x\<bar>" using assms(1) by simp
  have "2 ^ 53 / 2 ^ k = (2::real) powr (53 - real k)"
    by (simp add: powr_diff powr_realpow)
  with assms(2) have "\<bar>x\<bar> < 2 powr (53 - real k)" by simp
  then have "log 2 \<bar>x\<bar> < 53 - real k"
    using pos by (simp add: log_less_iff)
  then have "log 2 \<bar>x\<bar> < of_int (53 - int k)" by simp
  then have "?e < 53 - int k" by (simp only: floor_less_iff)
  then have "?E \<le> - int k" using assms(3) by simp
  then obtain j :: nat where j: "?E = - int (k + j)"
    by (metis add.inverse_inverse int_ops(5) neg_le_iff_le zle_iff_zadd)
  have "ulp x = 2 powr (- real (k + j))"
    unfolding ulp_def j by simp
  also have "\<dots> = inverse (2 powr real (k + j))"
    by (rule powr_minus)
  also have "2 powr real (k + j) = 2 ^ (k + j)"
    by (rule powr_realpow) simp
  finally show ?thesis by (auto simp: divide_inverse)
qed

lemma nearest_dyadic:
  assumes "\<bar>n\<bar> < 2 ^ 53" and "k \<le> 1074"
  shows "nearest (of_int n / 2 ^ k) = of_int n / 2 ^ k"
proof (cases "n = 0")
  case True
  then show ?thesis by (simp add: nearest_def)
next
  case False
  let ?x = "real_of_int n / 2 ^ k"
  have nz: "?x \<noteq> 0" using False by simp
  have "\<bar>?x\<bar> = \<bar>real_of_int n\<bar> / 2 ^ k" by (simp add: abs_divide)
  moreover have "\<bar>real_of_int n\<bar> < 2 ^ 53" using assms(1)
    by (metis of_int_abs of_int_less_numeral_power_cancel_iff)
  ultimately have "\<bar>?x\<bar> < 2 ^ 53 / 2 ^ k"
    by (simp add: divide_strict_right_mono)
  from ulp_exponent [OF nz this assms(2)] obtain j :: nat where j: "ulp ?x = 1 / 2 ^ (k + j)"
    by blast
  have "?x / ulp ?x = of_int (n * 2 ^ j)"
    by (simp add: j power_add)
  then have "roundEven (?x / ulp ?x) = n * 2 ^ j"
    by (simp only: roundEven_of_int)
  then show ?thesis
    using nz by (simp add: nearest_def j power_add)
qed

lemma double_dyadic:
  assumes "\<bar>n\<bar> < 2 ^ 53" and "k \<le> 1074"
  shows "double (of_int n / 2 ^ k) = Fin (of_int n / 2 ^ k)"
proof -
  have a: "\<bar>real_of_int n\<bar> < 2 ^ 53" using assms(1)
    by (metis of_int_abs of_int_less_numeral_power_cancel_iff)
  have "\<bar>real_of_int n / 2 ^ k\<bar> \<le> \<bar>real_of_int n\<bar>"
    by (simp add: abs_divide divide_le_eq_1 mult_le_cancel_left1 field_simps) 
  with a have b: "\<bar>real_of_int n / 2 ^ k\<bar> < 2 ^ 53" by linarith
  with b huge_large have "real_of_int n / 2 ^ k < huge" and "- huge < real_of_int n / 2 ^ k"
    by linarith+
  then show ?thesis
    by (simp add: double_def nearest_dyadic [OF assms] not_le)
qed


lemma real_of_small_int:
  assumes "\<bar>a::int\<bar> < 2 ^ 53"
  shows "- (2 ^ 53) < real_of_int a \<and> real_of_int a < 2 ^ 53"
proof -
  from assms have "a < 2 ^ 53" and "- (2 ^ 53) < a"
    by linarith+
  then have "real_of_int a < real_of_int (2 ^ 53)" and "real_of_int (- (2 ^ 53)) < real_of_int a"
    by (simp_all only: of_int_less_iff)
  then show ?thesis by simp
qed




lemma double_int: "\<bar>n\<bar> < 2 ^ 53 \<Longrightarrow> double (of_int n) = Fin (of_int n)"
  using double_dyadic [of n 0] by simp

lemma double_numeral [simp]: "\<bar>numeral w :: int\<bar> < 2 ^ 53 \<Longrightarrow> double (numeral w) = Fin (numeral w)"
  using double_int [of "numeral w"] by simp

lemma double_zero [simp]: "double 0 = Fin 0"
  using double_int [of 0] by simp





lemma ulp_binade:
  assumes "2 powr of_int e \<le> \<bar>x\<bar>" and "\<bar>x\<bar> < 2 powr of_int (e + 1)" and "- 1074 \<le> e - 52"
  shows "ulp x = 2 powr of_int (e - 52)"
proof -
  have pos: "0 < \<bar>x\<bar>"
    using assms(1) powr_gt_zero [of 2 "of_int e"] by linarith
  have "of_int e \<le> log 2 \<bar>x\<bar>"
    using assms(1) pos by (simp add: le_log_iff)
  moreover have "log 2 \<bar>x\<bar> < of_int e + 1"
    using assms(2) pos by (simp add: log_less_iff add.commute)
  ultimately have f: "\<lfloor>log 2 \<bar>x\<bar>\<rfloor> = e"
    by (rule floor_unique)
  have m: "max (e - 52) (- 1074) = e - 52"
    using assms(3) by simp
  show ?thesis
    unfolding ulp_def f m by (rule refl)
qed








text \<open>
  Three examples in which rounding or overflow decides the result. For the bounds 2000 and
  5000 and \<open>Math.random()\<close> returning 1501199875790 divided by 2 to the power 53, the
  sum is rounded to 2000.5 and the pause is 2001 ms. For \<open>--delayMin\<close>
  5188146770730811 divided by 2 to the power 60, the product with 1000 is rounded to 4.5
  and the lower bound is 5 ms. For \<open>--delayMax\<close> 2 to the power 1023, the product
  overflows and the upper bound is \<open>Infinity\<close>.
\<close>

lemma ulp_nat_binade:
  assumes "2 ^ k \<le> \<bar>x\<bar>" and "\<bar>x\<bar> < 2 ^ Suc k" and "k \<le> 52"
  shows "ulp x = 1 / 2 ^ (52 - k)"
proof -
  have a: "(2::real) powr of_int (int k) = 2 ^ k"
    using powr_realpow [of 2 k] by simp
  have b: "(2::real) powr of_int (int k + 1) = 2 ^ Suc k"
    using powr_realpow [of 2 "Suc k"] by (simp add: add.commute)
  have "ulp x = 2 powr of_int (int k - 52)"
  proof (rule ulp_binade)
    show "2 powr real_of_int (int k) \<le> \<bar>x\<bar>"
      using assms(1) by (simp only: a)
    show "\<bar>x\<bar> < 2 powr real_of_int (int k + 1)"
      using assms(2) by (simp only: b)
    show "- 1074 \<le> int k - 52"
      by simp
  qed
  also have "int k - 52 = - int (52 - k)"
    using assms(3) by simp
  also have "(2::real) powr of_int (- int (52 - k)) = inverse (2 powr real (52 - k))"
    using powr_minus [of 2 "real (52 - k)"] by simp
  also have "(2::real) powr real (52 - k) = 2 ^ (52 - k)"
    by (rule powr_realpow) simp
  finally show ?thesis by (simp add: divide_inverse)
qed

lemma nearest_eval:
  assumes "2 ^ k \<le> \<bar>x\<bar>" and "\<bar>x\<bar> < 2 ^ Suc k" and "k \<le> 52"
    and "roundEven (x * 2 ^ (52 - k)) = m"
  shows "nearest x = of_int m / 2 ^ (52 - k)"
proof -
  have u: "ulp x = 1 / 2 ^ (52 - k)"
    using assms(1,2,3) by (rule ulp_nat_binade)
  have "0 < \<bar>x\<bar>"
    using assms(1) zero_less_power [of "2::real" k] by linarith
  then have nz: "x \<noteq> 0" by simp
  have "x / ulp x = x * 2 ^ (52 - k)"
    by (simp add: u)
  then have "roundEven (x / ulp x) = m"
    using assms(4) by simp
  then show ?thesis
    using nz by (simp add: nearest_def u)
qed

lemma double_small:
  assumes "nearest x = y" and "\<bar>y\<bar> < 2 ^ 53"
  shows "double x = Fin y"
proof -
  from assms(2) huge_large have "y < huge" and "- huge < y"
    by linarith+
  then show ?thesis
    by (simp add: double_def assms(1) not_le)
qed

lemma delay_rounds_up:
  "successDelay (Fin 2000) (Fin 5000) (1501199875790 / 2 ^ 53) = Fin 2001"
proof -
  have s: "jsSub (Fin 5000) (Fin 2000) = Fin 3000"
    by (simp add: jsSub_def)
  have "double (real_of_int 9007199254740000 / 2 ^ 54) = Fin (real_of_int 9007199254740000 / 2 ^ 54)"
    by (rule double_dyadic) simp_all
  then have m: "jsMul (Fin (1501199875790 / 2 ^ 53)) (Fin 3000) = Fin (9007199254740000 / 2 ^ 54)"
    by simp
  have "nearest (2000 + 9007199254740000 / 2 ^ 54) = real_of_int 8798292045463552 / 2 ^ (52 - 10)"
    by (rule nearest_eval) (simp_all add: roundEven_def)
  then have "nearest (2000 + 9007199254740000 / 2 ^ 54) = 4001 / 2"
    by simp
  then have "double (2000 + 9007199254740000 / 2 ^ 54) = Fin (4001 / 2)"
    by (rule double_small) simp
  then have a: "jsAdd (Fin 2000) (Fin (9007199254740000 / 2 ^ 54)) = Fin (4001 / 2)"
    by simp
  show ?thesis
    unfolding successDelay_def randomBetween_def s m a by simp
qed

lemma minMsOf_rounds_up: "minMsOf (Fin (5188146770730811 / 2 ^ 60)) = Fin 5"
proof -
  have "nearest (5188146770730811 / 2 ^ 60 * 1000) = real_of_int 5066549580791808 / 2 ^ (52 - 2)"
    by (rule nearest_eval) (simp_all add: roundEven_def)
  then have "nearest (5188146770730811 / 2 ^ 60 * 1000) = 9 / 2"
    by simp
  then have "double (5188146770730811 / 2 ^ 60 * 1000) = Fin (9 / 2)"
    by (rule double_small) simp
  then have m: "jsMul (Fin (5188146770730811 / 2 ^ 60)) (Fin 1000) = Fin (9 / 2)"
    by simp
  have o: "orElse (Fin (5188146770730811 / 2 ^ 60)) (Fin 2) = Fin (5188146770730811 / 2 ^ 60)"
    by (simp add: orElse_def)
  show ?thesis
    unfolding minMsOf_def o m by simp
qed


lemma ulp_exponent_up:
  assumes "x \<noteq> 0" and "\<bar>x\<bar> < 2 ^ 53 * 2 ^ k"
  shows "\<exists>j::nat. ulp x = 2 ^ k / 2 ^ j"
proof -
  let ?e = "\<lfloor>log 2 \<bar>x\<bar>\<rfloor>"
  let ?E = "max (?e - 52) (- 1074)"
  have pos: "0 < \<bar>x\<bar>" using assms(1) by simp
  have "(2::real) ^ 53 * 2 ^ k = 2 ^ (53 + k)"
    by (simp add: power_add)
  also have "\<dots> = 2 powr real (53 + k)"
    by (rule powr_realpow [symmetric]) simp
  finally have "\<bar>x\<bar> < 2 powr real (53 + k)"
    using assms(2) by simp
  then have "log 2 \<bar>x\<bar> < real (53 + k)"
    using pos by (simp add: log_less_iff)
  then have "log 2 \<bar>x\<bar> < of_int (53 + int k)" by simp
  then have "?e < 53 + int k" by (simp only: floor_less_iff)
  then have "?E \<le> int k" by simp
  then have "?E = int k - int (nat (int k - ?E))"
    by simp
  then obtain j :: nat where j: "?E = int k - int j"
    by (rule that)
  have "ulp x = 2 powr (real k - real j)"
    unfolding ulp_def j by simp
  also have "\<dots> = 2 powr real k / 2 powr real j"
    by (rule powr_diff)
  also have "2 powr real k = (2::real) ^ k"
    by (rule powr_realpow) simp
  also have "2 powr real j = (2::real) ^ j"
    by (rule powr_realpow) simp
  finally show ?thesis by blast
qed

lemma nearest_scaled:
  assumes "\<bar>n\<bar> < 2 ^ 53"
  shows "nearest (of_int n * 2 ^ k) = of_int n * 2 ^ k"
proof (cases "n = 0")
  case True
  then show ?thesis by (simp add: nearest_def)
next
  case False
  let ?x = "real_of_int n * 2 ^ k"
  have nz: "?x \<noteq> 0" using False by simp
  have "\<bar>?x\<bar> = \<bar>real_of_int n\<bar> * 2 ^ k" by (simp add: abs_mult)
  moreover have "\<bar>real_of_int n\<bar> < 2 ^ 53"
    using real_of_small_int [OF assms] by (simp add: abs_less_iff)
  ultimately have "\<bar>?x\<bar> < 2 ^ 53 * 2 ^ k"
    by simp
  from ulp_exponent_up [OF nz this] obtain j :: nat where j: "ulp ?x = 2 ^ k / 2 ^ j"
    by blast
  have "?x / ulp ?x = of_int (n * 2 ^ j)"
    by (simp add: j)
  then have "roundEven (?x / ulp ?x) = n * 2 ^ j"
    by (simp only: roundEven_of_int)
  then show ?thesis
    using nz by (simp add: nearest_def j)
qed

lemma huge_le_scaled:
  assumes "2 \<le> c"
  shows "huge \<le> c * 2 ^ 1023"
proof -
  have "(1024::nat) = Suc 1023" by simp
  then have "huge = 2 ^ Suc 1023"
    unfolding huge_def by (rule arg_cong)
  also have "\<dots> = 2 * 2 ^ 1023"
    by (rule power_Suc)
  also have "\<dots> \<le> c * 2 ^ 1023"
    using assms by (intro mult_right_mono zero_le_power) simp_all
  finally show ?thesis .
qed

lemma maxMsOf_overflow: "maxMsOf (Fin (2 ^ 1023)) = PosInf"
proof -
  define b :: real where "b = 2 ^ 1023"
  have n: "nearest (real_of_int 1000 * b) = real_of_int 1000 * b"
    unfolding b_def by (rule nearest_scaled) simp
  have h: "huge \<le> real_of_int 1000 * b"
    unfolding b_def by (rule huge_le_scaled) simp
  have "double (real_of_int 1000 * b) = PosInf"
    using h by (simp only: double_def n if_True)
  then have d: "double (b * 1000) = PosInf"
    by (simp add: mult.commute)
  have "b \<noteq> 0"
    unfolding b_def by (rule power_not_zero) simp
  then have o: "orElse (Fin b) (Fin 5) = Fin b"
    by (simp add: orElse_def)
  have "maxMsOf (Fin b) = PosInf"
    unfolding maxMsOf_def o by (simp add: d)
  then show ?thesis
    unfolding b_def .
qed


section \<open>Properties of the waits\<close>

lemma race_time: "fst (race b a ms) \<le> ms"
  by (simp add: race_def split: option.splits)


lemma waitForAny_time: "fst (waitForAny pg sels ms) \<le> ms"
  by (simp add: waitForAny_def Let_def race_time)





lemma ensureLoggedIn_at_once: "goto pg = None \<Longrightarrow> ensureLoggedIn pg = Inr 0"
  using waitForAny_time [of pg readySelectors 0] by (simp add: ensureLoggedIn_def)




text \<open>
  Claim C6. \<open>ensureLoggedIn\<close> is to block until a readiness indicator is visible.
  It passes \<open>timeout: 0\<close> to \<open>waitForAny\<close>, which races the indicators against
  \<open>sleep(0)\<close>: on \<open>stuckPage\<close>, where the three promises stay pending for ever,
  \<open>ensureLoggedIn\<close> returns at time 0 (and so it does on every page on which the
  navigation returns, \<open>ensureLoggedIn_at_once\<close>).
\<close>

theorem ensureLoggedIn_does_not_block:
  "map (\<lambda>sel. waitForSelector stuckPage sel 0) readySelectors = [Pending, Pending, Pending]
   \<and> snd (waitForAny stuckPage readySelectors 0) = None
   \<and> ensureLoggedIn stuckPage = Inr 0"
  by (simp add: ensureLoggedIn_def wait_defs selector_defs stuckPage_def)



section \<open>Properties of the pacing\<close>


lemma delays_of_zero: "minMsOf (Fin 0) = Fin 2000 \<and> maxMsOf (Fin 0) = Fin 5000"
  by (simp add: minMsOf_def maxMsOf_def orElse_def)

lemma successDelay_at_zero: "successDelay (Fin 2000) (Fin 5000) 0 = Fin 2000"
  by (simp add: successDelay_def randomBetween_def jsSub_def)

lemma successDelay_at_half: "successDelay (Fin 2000) (Fin 5000) (1 / 2) = Fin 3500"
  by (simp add: successDelay_def randomBetween_def jsSub_def)


lemma jobOutcome_zeroDelays:
  "jobOutcome zeroDelays i p = ([EOpenChat p, ETypeMultiline ''Hi'', EClickSend], None)"
  by (simp add: job_defs step_defs wait_defs selector_defs zeroDelays_def okPage_def)

lemma fields_zeroDelays:
  "minMs zeroDelays = Fin 2000" "maxMs zeroDelays = Fin 5000" "random zeroDelays i = 0"
  by (simp_all add: zeroDelays_def delays_of_zero)

lemma jobOutcome_nothingToSend:
  "jobOutcome nothingToSend i p = ([EOpenChat p, ENothingToSend], None)"
  by (simp add: job_defs step_defs wait_defs selector_defs nothingToSend_def okPage_def)

lemma fields_nothingToSend:
  "minMs nothingToSend = Fin 2000" "maxMs nothingToSend = Fin 5000"
  "random nothingToSend i = 0"
  "attachments nothingToSend = []" "msgText nothingToSend = []"
  by (simp_all add: nothingToSend_def)


text \<open>
  Claim C7. With \<open>--delayMin 0 --delayMax 0\<close>, three contacts, the message \<open>Hi\<close> and
  no attachment, the run is to make three open, type, send sequences with no pause, and
  end with three sent and none failed. The sequences and the ledger are as claimed, but
  the bounds are computed as \<open>(argv.delayMin || 2) * 1000\<close> and
  \<open>(argv.delayMax || 5) * 1000\<close>, and \<open>0 || 2\<close> is 2: the bounds are 2000 and 5000 ms,
  and even when \<open>Math.random()\<close> returns 0 every send is followed by a pause of 2000 ms.
\<close>

theorem zero_delay_run:
  "minMsOf (Fin 0) = Fin 2000 \<and> maxMsOf (Fin 0) = Fin 5000
   \<and> mainLoop zeroDelays threeNumbers =
       (\<lparr>sent = 3, failed = 0, errors = []\<rparr>,
        [EOpenChat ''15550100'', ETypeMultiline ''Hi'', EClickSend, ESleep (Fin 2000),
         EOpenChat ''15550101'', ETypeMultiline ''Hi'', EClickSend, ESleep (Fin 2000),
         EOpenChat ''15550102'', ETypeMultiline ''Hi'', EClickSend, ESleep (Fin 2000)])"
  by (simp add: delays_of_zero mainLoop_def threeNumbers_def iteration_def
      jobOutcome_zeroDelays fields_zeroDelays successDelay_at_zero)




section \<open>A job with nothing to send\<close>

text \<open>
  Claim C9, as stated: a job with an empty message and no attachment is not recorded as
  sent. In the run \<open>nothingToSend\<close> the one contact is opened, nothing is typed or
  sent, and the loop increments \<open>sent\<close>.
\<close>

theorem nothing_to_send_counts_as_sent:
  "mainLoop nothingToSend [''15550100''] =
     (\<lparr>sent = 1, failed = 0, errors = []\<rparr>,
      [EOpenChat ''15550100'', ENothingToSend, ESleep (Fin 2000)])"
  by (simp add: mainLoop_def iteration_def jobOutcome_nothingToSend fields_nothingToSend
      successDelay_at_zero)


text \<open>
  Claim C9, amended. When the message is empty and there is no attachment, the job
  makes no automation call after \<open>openChat\<close>. When \<open>openChat\<close> returns, the job
  throws nothing, no failure is recorded and the iteration increments \<open>sent\<close>: the
  ledger has no third outcome. When \<open>openChat\<close> throws, the failure is recorded as for
  any other job.
\<close>

theorem nothing_to_send_job:
  assumes "attachments rn = []" and "msgText rn = []"
  shows "jobOutcome rn i p =
      (case openChat (browser rn i OpenChat) p of
         Inl e \<Rightarrow> ([EOpenChat p], Some e)
       | Inr t \<Rightarrow> ([EOpenChat p, ENothingToSend], None))
    \<and> fst (iteration rn i p st) =
      (case openChat (browser rn i OpenChat) p of
         Inl e \<Rightarrow> (fst st)\<lparr>failed := failed (fst st) + 1,
                             errors := errors (fst st) @ [(p, errorDetail e)]\<rparr>
       | Inr t \<Rightarrow> (fst st)\<lparr>sent := sent (fst st) + 1\<rparr>)"
  using assms
  by (simp add: iteration_def jobOutcome_def sendJob_def andThen_def thrown_def
      split: sum.splits)

theorem nothing_to_send_job_witness:
  "attachments nothingToSend = [] \<and> msgText nothingToSend = []
   \<and> jobOutcome nothingToSend 0 ''15550100'' = ([EOpenChat ''15550100'', ENothingToSend], None)
   \<and> fst (iteration nothingToSend 0 ''15550100'' (\<lparr>sent = 0, failed = 0, errors = []\<rparr>, []))
       = \<lparr>sent = 1, failed = 0, errors = []\<rparr>"
proof -
  have h1: "attachments nothingToSend = []" and h2: "msgText nothingToSend = []"
    by (simp_all add: fields_nothingToSend)
  have o: "openChat (browser nothingToSend 0 OpenChat) ''15550100'' = Inr 200"
    by (simp add: nothingToSend_def okPage_def openChat_def wait_defs selector_defs)
  note job = nothing_to_send_job [OF h1 h2, of 0 "''15550100''"
      "(\<lparr>sent = 0, failed = 0, errors = []\<rparr>, [])"]
  have a: "jobOutcome nothingToSend 0 ''15550100''
      = ([EOpenChat ''15550100'', ENothingToSend], None)"
    using job by (simp add: o)
  have b: "fst (iteration nothingToSend 0 ''15550100'' (\<lparr>sent = 0, failed = 0, errors = []\<rparr>, []))
       = \<lparr>sent = 1, failed = 0, errors = []\<rparr>"
    using job by (simp add: o)
  from h1 h2 a b show ?thesis
    by blast
qed


end
